theory Spec2Isabelle
  imports Complex_Main
begin

section \<open>Data model of backend/server.py\<close>

text \<open>
  A \<open>datetime\<close> is a count of microseconds since the epoch (UTC), the resolution of
  Python's datetime. The ISO strings written to the store are read back with
  \<open>datetime.fromisoformat\<close>, which returns the same instant, so the store holds the
  instant itself.
\<close>

type_synonym datetime = int

definition minutes :: "int \<Rightarrow> int" where
  "minutes n = n * 60000000"

definition days :: "int \<Rightarrow> int" where
  "days n = n * 86400000000"

text \<open>
  \<open>HTTPException status detail\<close> is what the handlers raise themselves.
  \<open>PydanticValidationError\<close>, \<open>KeyError\<close> and \<open>AttributeError\<close> are the
  exceptions that escape a handler unhandled.
\<close>

datatype error =
    HTTPException nat string
  | PydanticValidationError
  | KeyError string
  | AttributeError

text \<open>class MenuItem. The code never computes with \<open>price\<close>; it is stored and returned.\<close>

record MenuItem =
  item_id :: string
  category :: string
  name :: string
  price :: real
  description :: "string option"
  is_special :: bool
  available :: bool
  image_url :: "string option"
  created_at :: datetime

text \<open>class MenuItemCreate: the two booleans are \<open>Optional[bool]\<close>.\<close>

record MenuItemCreate =
  c_category :: string
  c_name :: string
  c_price :: real
  c_description :: "string option"
  c_is_special :: "bool option"
  c_available :: "bool option"
  c_image_url :: "string option"

text \<open>class MenuItemUpdate: every field is optional and defaults to None.\<close>

record MenuItemUpdate =
  u_category :: "string option"
  u_name :: "string option"
  u_price :: "real option"
  u_description :: "string option"
  u_is_special :: "bool option"
  u_available :: "bool option"
  u_image_url :: "string option"

text \<open>The document \<open>otp_doc\<close> that send_otp builds and inserts.\<close>

record otp_doc =
  email :: string
  otp :: string
  otp_created_at :: datetime
  expires_at :: datetime

section \<open>The store collaborator\<close>

text \<open>
  A collection is the list of its documents in insertion order. The filters of the code
  are equalities on fields, given here as predicates.
\<close>

fun find_one :: "('a \<Rightarrow> bool) \<Rightarrow> 'a list \<Rightarrow> 'a option" where
  "find_one P [] = None"
| "find_one P (x # xs) = (if P x then Some x else find_one P xs)"

definition find_many :: "('a \<Rightarrow> bool) \<Rightarrow> 'a list \<Rightarrow> 'a list" where
  "find_many P xs = filter P xs"

definition to_list :: "nat \<Rightarrow> 'a list \<Rightarrow> 'a list" where
  "to_list n xs = take n xs"

definition insert_one :: "'a \<Rightarrow> 'a list \<Rightarrow> 'a list" where
  "insert_one d xs = xs @ [d]"

definition delete_many :: "('a \<Rightarrow> bool) \<Rightarrow> 'a list \<Rightarrow> 'a list" where
  "delete_many P xs = filter (\<lambda>x. \<not> P x) xs"

fun delete_one :: "('a \<Rightarrow> bool) \<Rightarrow> 'a list \<Rightarrow> 'a list" where
  "delete_one P [] = []"
| "delete_one P (x # xs) = (if P x then xs else x # delete_one P xs)"

fun update_one :: "('a \<Rightarrow> bool) \<Rightarrow> ('a \<Rightarrow> 'a) \<Rightarrow> 'a list \<Rightarrow> 'a list" where
  "update_one P f [] = []"
| "update_one P f (x # xs) = (if P x then f x # xs else x # update_one P f xs)"

section \<open>Helper functions\<close>

text \<open>\<open>str\<close> of a non-negative integer: its decimal digits.\<close>

definition digit_char :: "nat \<Rightarrow> char" where
  "digit_char d = ''0123456789'' ! d"

fun str_nat :: "nat \<Rightarrow> string" where
  "str_nat n = (if n < 10 then [digit_char n] else str_nat (n div 10) @ [digit_char (n mod 10)])"

declare str_nat.simps [simp del]

text \<open>generate_otp: \<open>r\<close> is the integer that \<open>random.randint(100000, 999999)\<close> draws.\<close>

definition generate_otp :: "nat \<Rightarrow> string" where
  "generate_otp r = str_nat r"

text \<open>
  send_otp_email: \<open>sg to_email code\<close> is what building and sending the message does:
  \<open>Some status\<close> when \<open>sg.send\<close> returns a response, \<open>None\<close> when anything in the try
  block raises.
\<close>

definition send_otp_email :: "(string \<Rightarrow> string \<Rightarrow> nat option) \<Rightarrow> string \<Rightarrow> string \<Rightarrow> error + bool" where
  "send_otp_email sg to_email code =
     (case sg to_email code of
        Some status \<Rightarrow> Inr True
      | None \<Rightarrow> Inl (HTTPException 500 ''Failed to send OTP email''))"

subsection \<open>Session tokens\<close>

text \<open>
  The payload is a dictionary from claim names to values. The jwt package is not part of
  the repository: its two entry points are the fields of \<open>jwt_lib\<close>, over any token type.
  \<open>jwt_decode token key now\<close> reads the clock, hence the third argument;
  ExpiredSignatureError is caught before its superclass InvalidTokenError.
\<close>

datatype claim = Str string | Time datetime

type_synonym payload = "string \<rightharpoonup> claim"

datatype decoded = Payload payload | ExpiredSignatureError | InvalidTokenError

record 'tok jwt_lib =
  jwt_encode :: "payload \<Rightarrow> string \<Rightarrow> 'tok"
  jwt_decode :: "'tok \<Rightarrow> string \<Rightarrow> datetime \<Rightarrow> decoded"

definition create_jwt_token :: "'tok jwt_lib \<Rightarrow> string \<Rightarrow> datetime \<Rightarrow> string \<Rightarrow> 'tok" where
  "create_jwt_token L JWT_SECRET now addr =
     jwt_encode L [''email'' \<mapsto> Str addr, ''exp'' \<mapsto> Time (now + days 7)] JWT_SECRET"

definition verify_jwt_token :: "'tok jwt_lib \<Rightarrow> string \<Rightarrow> datetime \<Rightarrow> 'tok \<Rightarrow> error + claim" where
  "verify_jwt_token L JWT_SECRET now token =
     (case jwt_decode L token JWT_SECRET now of
        Payload p \<Rightarrow> (case p ''email'' of Some v \<Rightarrow> Inr v | None \<Rightarrow> Inl (KeyError ''email''))
      | ExpiredSignatureError \<Rightarrow> Inl (HTTPException 401 ''Token has expired'')
      | InvalidTokenError \<Rightarrow> Inl (HTTPException 401 ''Invalid token''))"

text \<open>
  Modelled from the spec: the jwt package (\<open>jwt.encode\<close> and \<open>jwt.decode\<close> with HS256),
  a third-party library that is not in the sources. The spec has a signed token encoding
  the payload under a symmetric secret; it is valid only if its signature verifies under
  the secret and its expiry has not passed; verification fails as expired when the
  embedded expiry has passed and as invalid for malformed, tampered or wrong-secret
  tokens. The signature is symbolic: the key and the payload it was made for. The spec
  does not say whether a token is still good at the very instant of its expiry:
  \<open>strict\<close> covers both readings.
\<close>

datatype signature = Signature string payload

datatype token = Signed payload signature | Malformed string

definition hs256 :: "bool \<Rightarrow> token jwt_lib" where
  "hs256 strict = \<lparr>jwt_encode = (\<lambda>p key. Signed p (Signature key p)),
     jwt_decode = (\<lambda>tok key now.
        case tok of
          Malformed junk \<Rightarrow> InvalidTokenError
        | Signed p sig \<Rightarrow>
            if sig \<noteq> Signature key p then InvalidTokenError
            else (case p ''exp'' of
                    Some (Time e) \<Rightarrow>
                      if e < now \<or> (strict \<and> e = now) then ExpiredSignatureError else Payload p
                  | _ \<Rightarrow> Payload p))\<rparr>"

section \<open>Auth routes\<close>

text \<open>
  send_otp reads the clock twice, \<open>now1\<close> for created_at and \<open>now2\<close> for expires_at.
  The result is the response (message, email) or the error, with the collection
  otp_verifications as the call leaves it.
\<close>

definition send_otp ::
  "string \<Rightarrow> nat \<Rightarrow> datetime \<Rightarrow> datetime \<Rightarrow> (string \<Rightarrow> string \<Rightarrow> nat option) \<Rightarrow> string
     \<Rightarrow> otp_doc list \<Rightarrow> (error + string \<times> string) \<times> otp_doc list" where
  "send_otp ADMIN_EMAIL r now1 now2 sg req_email store =
     (if req_email \<noteq> ADMIN_EMAIL
      then (Inl (HTTPException 403 ''Email not authorized''), store)
      else
        let code = generate_otp r;
            doc = \<lparr>email = req_email, otp = code, otp_created_at = now1,
                   expires_at = now2 + minutes 10\<rparr>;
            store1 = delete_many (\<lambda>d. email d = req_email) store;
            store2 = insert_one doc store1
        in (case send_otp_email sg req_email code of
              Inl e \<Rightarrow> (Inl e, store2)
            | Inr _ \<Rightarrow> (Inr (''OTP sent successfully'', req_email), store2)))"

text \<open>
  verify_otp: \<open>now\<close> is the clock read by the expiry test, \<open>now_jwt\<close> the one read by
  create_jwt_token. The response is (token, email).
\<close>

definition verify_otp ::
  "string \<Rightarrow> 'tok jwt_lib \<Rightarrow> string \<Rightarrow> datetime \<Rightarrow> datetime \<Rightarrow> string \<Rightarrow> string
     \<Rightarrow> otp_doc list \<Rightarrow> (error + 'tok \<times> string) \<times> otp_doc list" where
  "verify_otp ADMIN_EMAIL L JWT_SECRET now now_jwt req_email req_otp store =
     (if req_email \<noteq> ADMIN_EMAIL
      then (Inl (HTTPException 403 ''Email not authorized''), store)
      else
        (case find_one (\<lambda>d. email d = req_email) store of
           None \<Rightarrow> (Inl (HTTPException 404 ''OTP not found or expired''), store)
         | Some otp_doc \<Rightarrow>
             if now > expires_at otp_doc
             then (Inl (HTTPException 400 ''OTP has expired''),
                   delete_one (\<lambda>d. email d = req_email) store)
             else if otp otp_doc \<noteq> req_otp
             then (Inl (HTTPException 400 ''Invalid OTP''), store)
             else (Inr (create_jwt_token L JWT_SECRET now_jwt req_email, req_email),
                   delete_one (\<lambda>d. email d = req_email) store)))"

section \<open>Menu routes\<close>

text \<open>
  The three listings. Turning the created_at strings back into datetimes leaves the
  instants as they are.
\<close>

definition get_menu :: "MenuItem list \<Rightarrow> MenuItem list" where
  "get_menu store = to_list 1000 (find_many (\<lambda>i. available i) store)"

definition get_specials :: "MenuItem list \<Rightarrow> MenuItem list" where
  "get_specials store = to_list 1000 (find_many (\<lambda>i. is_special i \<and> available i) store)"

definition get_all_menu_items :: "MenuItem list \<Rightarrow> MenuItem list" where
  "get_all_menu_items store = to_list 1000 (find_many (\<lambda>i. True) store)"

text \<open>
  create_menu_item: \<open>new_id\<close> is the string of the uuid4 drawn by the default factory
  and \<open>now\<close> the clock it reads. \<open>MenuItem(**item.model_dump())\<close> validates the dump
  against class MenuItem, whose two booleans are not optional: a None there raises.
\<close>

definition create_menu_item ::
  "string \<Rightarrow> datetime \<Rightarrow> MenuItemCreate \<Rightarrow> MenuItem list \<Rightarrow> (error + MenuItem) \<times> MenuItem list" where
  "create_menu_item new_id now item store =
     (case (c_is_special item, c_available item) of
        (Some sp, Some av) \<Rightarrow>
          let menu_item = \<lparr>item_id = new_id, category = c_category item, name = c_name item,
                price = c_price item, description = c_description item, is_special = sp,
                available = av, image_url = c_image_url item, created_at = now\<rparr>
          in (Inr menu_item, insert_one menu_item store)
      | _ \<Rightarrow> (Inl PydanticValidationError, store))"

text \<open>The \<open>$set\<close> of update_data: the fields of the payload that are not None.\<close>

definition set_fields :: "MenuItemUpdate \<Rightarrow> MenuItem \<Rightarrow> MenuItem" where
  "set_fields u i =
     i\<lparr>category := (case u_category u of Some v \<Rightarrow> v | None \<Rightarrow> category i),
       name := (case u_name u of Some v \<Rightarrow> v | None \<Rightarrow> name i),
       price := (case u_price u of Some v \<Rightarrow> v | None \<Rightarrow> price i),
       description := (case u_description u of Some v \<Rightarrow> Some v | None \<Rightarrow> description i),
       is_special := (case u_is_special u of Some v \<Rightarrow> v | None \<Rightarrow> is_special i),
       available := (case u_available u of Some v \<Rightarrow> v | None \<Rightarrow> available i),
       image_url := (case u_image_url u of Some v \<Rightarrow> Some v | None \<Rightarrow> image_url i)\<rparr>"

definition update_data_empty :: "MenuItemUpdate \<Rightarrow> bool" where
  "update_data_empty u \<longleftrightarrow>
     u_category u = None \<and> u_name u = None \<and> u_price u = None \<and> u_description u = None \<and>
     u_is_special u = None \<and> u_available u = None \<and> u_image_url u = None"

definition update_menu_item ::
  "string \<Rightarrow> MenuItemUpdate \<Rightarrow> MenuItem list \<Rightarrow> (error + MenuItem) \<times> MenuItem list" where
  "update_menu_item iid item store =
     (case find_one (\<lambda>i. item_id i = iid) store of
        None \<Rightarrow> (Inl (HTTPException 404 ''Menu item not found''), store)
      | Some existing_item \<Rightarrow>
          let store1 = (if update_data_empty item then store
                        else update_one (\<lambda>i. item_id i = iid) (set_fields item) store)
          in (case find_one (\<lambda>i. item_id i = iid) store1 of
                Some updated_item \<Rightarrow> (Inr updated_item, store1)
              | None \<Rightarrow> (Inl AttributeError, store1)))"

definition toggle_special ::
  "string \<Rightarrow> MenuItem list \<Rightarrow> (error + string \<times> bool) \<times> MenuItem list" where
  "toggle_special iid store =
     (case find_one (\<lambda>i. item_id i = iid) store of
        None \<Rightarrow> (Inl (HTTPException 404 ''Menu item not found''), store)
      | Some existing_item \<Rightarrow>
          let new_status = \<not> is_special existing_item
          in (Inr (''Special status updated'', new_status),
              update_one (\<lambda>i. item_id i = iid) (\<lambda>i. i\<lparr>is_special := new_status\<rparr>) store))"

definition toggle_available ::
  "string \<Rightarrow> MenuItem list \<Rightarrow> (error + string \<times> bool) \<times> MenuItem list" where
  "toggle_available iid store =
     (case find_one (\<lambda>i. item_id i = iid) store of
        None \<Rightarrow> (Inl (HTTPException 404 ''Menu item not found''), store)
      | Some existing_item \<Rightarrow>
          let new_status = \<not> available existing_item
          in (Inr (''Availability updated'', new_status),
              update_one (\<lambda>i. item_id i = iid) (\<lambda>i. i\<lparr>available := new_status\<rparr>) store))"

section \<open>Sample data\<close>

text \<open>
  Concrete instances at which the theorems below are evaluated: a token library whose
  tokens are the payload paired with the signing key (decoding with another key is
  InvalidTokenError, a passed \<open>exp\<close> is ExpiredSignatureError), a mail collaborator that
  accepts every message and one that always raises, two stored items, three request
  payloads, a collection of challenges left from before and two token payloads.
\<close>

definition demo_jwt :: "(payload \<times> string) jwt_lib" where
  "demo_jwt = \<lparr>jwt_encode = (\<lambda>p k. (p, k)),
     jwt_decode = (\<lambda>tok k now.
        if snd tok \<noteq> k then InvalidTokenError
        else (case fst tok ''exp'' of
                Some (Time e) \<Rightarrow> if e \<le> now then ExpiredSignatureError else Payload (fst tok)
              | _ \<Rightarrow> Payload (fst tok)))\<rparr>"

definition sendgrid_accepts :: "string \<Rightarrow> string \<Rightarrow> nat option" where
  "sendgrid_accepts to_email code = Some 202"

definition sendgrid_raises :: "string \<Rightarrow> string \<Rightarrow> nat option" where
  "sendgrid_raises to_email code = None"

definition lassi :: MenuItem where
  "lassi = \<lparr>item_id = ''id-1'', category = ''Lassi'', name = ''Sweet Lassi'', price = 40,
     description = Some ''Refreshing sweet lassi'', is_special = False, available = True,
     image_url = Some [], created_at = 1000\<rparr>"

definition chai :: MenuItem where
  "chai = \<lparr>item_id = ''id-2'', category = ''Tea'', name = ''Masala Chai'', price = 20,
     description = Some [], is_special = True, available = False,
     image_url = Some [], created_at = 2000\<rparr>"

definition nameless :: MenuItemCreate where
  "nameless = \<lparr>c_category = ''Lassi'', c_name = [], c_price = - 1, c_description = Some [],
     c_is_special = Some False, c_available = Some True, c_image_url = Some []\<rparr>"

definition blanking :: MenuItemUpdate where
  "blanking = \<lparr>u_category = Some [], u_name = Some [], u_price = Some (- 5),
     u_description = None, u_is_special = None, u_available = None, u_image_url = None\<rparr>"

definition reprice :: MenuItemUpdate where
  "reprice = \<lparr>u_category = None, u_name = None, u_price = Some 45,
     u_description = None, u_is_special = None, u_available = None, u_image_url = None\<rparr>"

definition stale_challenges :: "otp_doc list" where
  "stale_challenges =
     [\<lparr>email = ''admin@cafe.com'', otp = ''111111'', otp_created_at = 1, expires_at = 2\<rparr>,
      \<lparr>email = ''guest@example.com'', otp = ''333333'', otp_created_at = 2, expires_at = 3\<rparr>,
      \<lparr>email = ''admin@cafe.com'', otp = ''222222'', otp_created_at = 3, expires_at = 4\<rparr>]"

definition admin_claims :: payload where
  "admin_claims = [''email'' \<mapsto> Str ''admin@cafe.com'', ''exp'' \<mapsto> Time (0 + days 7)]"

definition forged_claims :: payload where
  "forged_claims = [''email'' \<mapsto> Str ''mallory@example.com'', ''exp'' \<mapsto> Time (0 + days 7)]"

section \<open>Facts about the store operations\<close>

lemma find_one_Some_P: "find_one P xs = Some x \<Longrightarrow> P x \<and> x \<in> set xs"
  by (induction xs) (auto split: if_splits)

lemma filter_delete_many: "filter P (delete_many P xs) = []"
  by (induction xs) (auto simp: delete_many_def)

lemma filter_not_delete_many: "filter (\<lambda>x. \<not> P x) (delete_many P xs) = filter (\<lambda>x. \<not> P x) xs"
  by (simp add: delete_many_def)

lemma find_one_filter: "find_one P xs = (case filter P xs of [] \<Rightarrow> None | x # _ \<Rightarrow> Some x)"
  by (induction xs) auto

lemma find_one_update_one:
  "find_one P xs = Some x \<Longrightarrow> P (f x) \<Longrightarrow> find_one P (update_one P f xs) = Some (f x)"
  by (induction xs) (auto split: if_splits)

lemma update_one_fix:
  "find_one P xs = Some x \<Longrightarrow> f x = x \<Longrightarrow> update_one P f xs = xs"
  by (induction xs) (auto split: if_splits)

lemma update_one_twice:
  "find_one P xs = Some x \<Longrightarrow> P (f x) \<Longrightarrow>
     update_one P g (update_one P f xs) = update_one P (\<lambda>y. g (f y)) xs"
  by (induction xs) (auto split: if_splits)

lemma update_one_split:
  "find_one P xs = Some x \<Longrightarrow>
     xs = takeWhile (\<lambda>y. \<not> P y) xs @ x # tl (dropWhile (\<lambda>y. \<not> P y) xs) \<and>
     update_one P f xs = takeWhile (\<lambda>y. \<not> P y) xs @ f x # tl (dropWhile (\<lambda>y. \<not> P y) xs)"
proof (induction xs)
  case Nil
  then show ?case by simp
next
  case (Cons a xs)
  show ?case
  proof (cases "P a")
    case True
    with Cons.prems show ?thesis by simp
  next
    case False
    with Cons show ?thesis by simp
  qed
qed

lemma find_one_inserted:
  "P d \<Longrightarrow> find_one P (insert_one d (delete_many P xs)) = Some d"
  by (simp add: find_one_filter insert_one_def filter_delete_many)

lemma filter_inserted:
  "P d \<Longrightarrow> filter P (insert_one d (delete_many P xs)) = [d]"
  by (simp add: insert_one_def filter_delete_many)

lemma filter_not_inserted:
  "P d \<Longrightarrow> filter (\<lambda>x. \<not> P x) (insert_one d (delete_many P xs)) = filter (\<lambda>x. \<not> P x) xs"
  by (simp add: insert_one_def filter_not_delete_many)

lemma delete_one_inserted:
  "P d \<Longrightarrow> delete_one P (insert_one d (delete_many P xs)) = delete_many P xs"
  by (induction xs) (auto simp: insert_one_def delete_many_def)

section \<open>Facts about the handlers\<close>

lemma generate_otp_123456: "generate_otp 123456 = ''123456''"
  by (simp add: generate_otp_def str_nat.simps digit_char_def)

lemma send_otp_admin:
  "send_otp A r now1 now2 sg A store =
     ((case sg A (generate_otp r) of
         Some status \<Rightarrow> Inr (''OTP sent successfully'', A)
       | None \<Rightarrow> Inl (HTTPException 500 ''Failed to send OTP email'')),
      insert_one \<lparr>email = A, otp = generate_otp r, otp_created_at = now1,
                  expires_at = now2 + minutes 10\<rparr>
        (delete_many (\<lambda>d. email d = A) store))"
  by (simp add: send_otp_def send_otp_email_def Let_def split: option.splits)

lemma verify_otp_found:
  "find_one (\<lambda>d. email d = A) store = Some d \<Longrightarrow>
   verify_otp A L S now now_jwt A code store =
     (if now > expires_at d
      then (Inl (HTTPException 400 ''OTP has expired''), delete_one (\<lambda>d. email d = A) store)
      else if otp d \<noteq> code then (Inl (HTTPException 400 ''Invalid OTP''), store)
      else (Inr (create_jwt_token L S now_jwt A, A), delete_one (\<lambda>d. email d = A) store))"
  by (simp add: verify_otp_def)

lemma verify_otp_absent:
  "filter (\<lambda>d. email d = A) store = [] \<Longrightarrow>
   verify_otp A L S now now_jwt A code store =
     (Inl (HTTPException 404 ''OTP not found or expired''), store)"
  by (simp add: verify_otp_def find_one_filter)

lemma set_fields_empty: "update_data_empty u \<Longrightarrow> set_fields u i = i"
  by (simp add: update_data_empty_def set_fields_def)

lemma item_id_set_fields: "item_id (set_fields u i) = item_id i"
  by (simp add: set_fields_def)

lemma update_menu_item_absent:
  "find_one (\<lambda>i. item_id i = iid) store = None \<Longrightarrow>
     update_menu_item iid u store = (Inl (HTTPException 404 ''Menu item not found''), store)"
  by (simp add: update_menu_item_def)

lemma update_menu_item_present:
  assumes "find_one (\<lambda>i. item_id i = iid) store = Some old"
  shows "update_menu_item iid u store
     = (Inr (set_fields u old), update_one (\<lambda>i. item_id i = iid) (set_fields u) store)"
proof -
  have id_old: "item_id old = iid"
    using find_one_Some_P [OF assms] by simp
  have unchanged: "update_data_empty u \<Longrightarrow> update_one (\<lambda>i. item_id i = iid) (set_fields u) store = store"
    using update_one_fix [OF assms] by (simp add: set_fields_empty)
  have found: "find_one (\<lambda>i. item_id i = iid) (update_one (\<lambda>i. item_id i = iid) (set_fields u) store)
      = Some (set_fields u old)"
    using find_one_update_one [OF assms, of "set_fields u"] id_old
    by (simp add: item_id_set_fields)
  show ?thesis
  proof (cases "update_data_empty u")
    case True
    with assms unchanged found show ?thesis
      by (simp add: update_menu_item_def)
  next
    case False
    with assms found show ?thesis
      by (simp add: update_menu_item_def)
  qed
qed

lemma toggle_special_present:
  "find_one (\<lambda>i. item_id i = iid) store = Some old \<Longrightarrow>
     toggle_special iid store
       = (Inr (''Special status updated'', \<not> is_special old),
          update_one (\<lambda>i. item_id i = iid) (\<lambda>i. i\<lparr>is_special := \<not> is_special old\<rparr>) store)"
  by (simp add: toggle_special_def Let_def)

lemma toggle_available_present:
  "find_one (\<lambda>i. item_id i = iid) store = Some old \<Longrightarrow>
     toggle_available iid store
       = (Inr (''Availability updated'', \<not> available old),
          update_one (\<lambda>i. item_id i = iid) (\<lambda>i. i\<lparr>available := \<not> available old\<rparr>) store)"
  by (simp add: toggle_available_def Let_def)

lemma toggle_special_twice:
  assumes f: "find_one (\<lambda>i. item_id i = iid) store = Some old"
  shows "snd (toggle_special iid (snd (toggle_special iid store))) = store"
proof -
  let ?P = "\<lambda>i. item_id i = iid"
  let ?f = "\<lambda>i. i\<lparr>is_special := \<not> is_special old\<rparr>"
  have id_old: "item_id old = iid"
    using find_one_Some_P [OF f] by simp
  have f2: "find_one ?P (update_one ?P ?f store) = Some (?f old)"
    using find_one_update_one [OF f, of ?f] id_old by simp
  have "snd (toggle_special iid (snd (toggle_special iid store)))
      = update_one ?P (\<lambda>i. i\<lparr>is_special := \<not> is_special (?f old)\<rparr>) (update_one ?P ?f store)"
    by (simp add: toggle_special_present [OF f] toggle_special_present [OF f2])
  also have "\<dots> = update_one ?P (\<lambda>i. (?f i)\<lparr>is_special := \<not> is_special (?f old)\<rparr>) store"
    using update_one_twice [OF f, of ?f] id_old by simp
  also have "\<dots> = store"
    using update_one_fix [OF f] by simp
  finally show ?thesis .
qed

lemma toggle_available_twice:
  assumes f: "find_one (\<lambda>i. item_id i = iid) store = Some old"
  shows "snd (toggle_available iid (snd (toggle_available iid store))) = store"
proof -
  let ?P = "\<lambda>i. item_id i = iid"
  let ?f = "\<lambda>i. i\<lparr>available := \<not> available old\<rparr>"
  have id_old: "item_id old = iid"
    using find_one_Some_P [OF f] by simp
  have f2: "find_one ?P (update_one ?P ?f store) = Some (?f old)"
    using find_one_update_one [OF f, of ?f] id_old by simp
  have "snd (toggle_available iid (snd (toggle_available iid store)))
      = update_one ?P (\<lambda>i. i\<lparr>available := \<not> available (?f old)\<rparr>) (update_one ?P ?f store)"
    by (simp add: toggle_available_present [OF f] toggle_available_present [OF f2])
  also have "\<dots> = update_one ?P (\<lambda>i. (?f i)\<lparr>available := \<not> available (?f old)\<rparr>) store"
    using update_one_twice [OF f, of ?f] id_old by simp
  also have "\<dots> = store"
    using update_one_fix [OF f] by simp
  finally show ?thesis .
qed

lemma hs256_encode: "jwt_encode (hs256 strict) p key = Signed p (Signature key p)"
  by (simp add: hs256_def)

lemma hs256_decode_signed:
  "jwt_decode (hs256 strict) (Signed p sig) key now =
     (if sig \<noteq> Signature key p then InvalidTokenError
      else (case p ''exp'' of
              Some (Time e) \<Rightarrow>
                if e < now \<or> (strict \<and> e = now) then ExpiredSignatureError else Payload p
            | _ \<Rightarrow> Payload p))"
  by (simp add: hs256_def)

lemma hs256_decode_malformed:
  "jwt_decode (hs256 strict) (Malformed junk) key now = InvalidTokenError"
  by (simp add: hs256_def)

lemma forged_claims_differ: "forged_claims \<noteq> admin_claims"
proof
  assume "forged_claims = admin_claims"
  then have "forged_claims ''email'' = admin_claims ''email''" by simp
  then show False by (simp add: forged_claims_def admin_claims_def)
qed

section \<open>Claims\<close>

subsection \<open>C1: validation of menu values\<close>

text \<open>
  C1 as stated fails: create_menu_item with an empty name and the price -1 returns the item
  and inserts it, and update_menu_item with an empty category, an empty name and the price
  -5 returns the item with those values and stores it. Neither handler looks at the values.
\<close>

theorem C1_counterexample:
  "create_menu_item ''id-9'' 5000 nameless []
     = (Inr \<lparr>item_id = ''id-9'', category = ''Lassi'', name = [], price = - 1,
              description = Some [], is_special = False, available = True, image_url = Some [],
              created_at = 5000\<rparr>,
        [\<lparr>item_id = ''id-9'', category = ''Lassi'', name = [], price = - 1,
              description = Some [], is_special = False, available = True, image_url = Some [],
              created_at = 5000\<rparr>]) \<and>
   update_menu_item ''id-1'' blanking [lassi]
     = (Inr (lassi\<lparr>category := [], name := [], price := - 5\<rparr>),
        [lassi\<lparr>category := [], name := [], price := - 5\<rparr>])"
  by (simp add: create_menu_item_def nameless_def insert_one_def update_menu_item_def Let_def
        update_data_empty_def blanking_def lassi_def set_fields_def)

text \<open>
  C1, amended: for every create input with an empty name, an empty category or a negative
  price (its is_special and available not None), create_menu_item succeeds: it returns the
  item built from the input, the new id and the creation time, and appends exactly that
  item to the collection. For every update payload with a negative price, an empty name or
  an empty category and every stored id, update_menu_item succeeds, returns the updated
  item, stores it, and the item carries the negative price and the empty strings.
\<close>

theorem C1_values_not_validated:
  "((c_name item = [] \<or> c_category item = [] \<or> c_price item < 0) \<and>
    c_is_special item = Some sp \<and> c_available item = Some av \<longrightarrow>
      create_menu_item new_id now item store
        = (Inr \<lparr>item_id = new_id, category = c_category item, name = c_name item,
                 price = c_price item, description = c_description item, is_special = sp,
                 available = av, image_url = c_image_url item, created_at = now\<rparr>,
           store @ [\<lparr>item_id = new_id, category = c_category item, name = c_name item,
                 price = c_price item, description = c_description item, is_special = sp,
                 available = av, image_url = c_image_url item, created_at = now\<rparr>])) \<and>
   (((u_price u = Some p \<and> p < 0) \<or> u_name u = Some [] \<or> u_category u = Some []) \<and>
    find_one (\<lambda>i. item_id i = iid) items = Some old \<longrightarrow>
      fst (update_menu_item iid u items) = Inr (set_fields u old) \<and>
      find_one (\<lambda>i. item_id i = iid) (snd (update_menu_item iid u items)) = Some (set_fields u old) \<and>
      (u_price u = Some p \<longrightarrow> price (set_fields u old) = p) \<and>
      (u_name u = Some [] \<longrightarrow> name (set_fields u old) = []) \<and>
      (u_category u = Some [] \<longrightarrow> category (set_fields u old) = []))"
proof (intro conjI impI)
  assume "(c_name item = [] \<or> c_category item = [] \<or> c_price item < 0) \<and>
    c_is_special item = Some sp \<and> c_available item = Some av"
  then show "create_menu_item new_id now item store
        = (Inr \<lparr>item_id = new_id, category = c_category item, name = c_name item,
                 price = c_price item, description = c_description item, is_special = sp,
                 available = av, image_url = c_image_url item, created_at = now\<rparr>,
           store @ [\<lparr>item_id = new_id, category = c_category item, name = c_name item,
                 price = c_price item, description = c_description item, is_special = sp,
                 available = av, image_url = c_image_url item, created_at = now\<rparr>])"
    by (simp add: create_menu_item_def insert_one_def Let_def)
next
  assume a: "((u_price u = Some p \<and> p < 0) \<or> u_name u = Some [] \<or> u_category u = Some []) \<and>
    find_one (\<lambda>i. item_id i = iid) items = Some old"
  then have f: "find_one (\<lambda>i. item_id i = iid) items = Some old" by simp
  have id_old: "item_id old = iid"
    using find_one_Some_P [OF f] by simp
  show "fst (update_menu_item iid u items) = Inr (set_fields u old)"
    by (simp add: update_menu_item_present [OF f])
  show "find_one (\<lambda>i. item_id i = iid) (snd (update_menu_item iid u items)) = Some (set_fields u old)"
    using find_one_update_one [OF f, of "set_fields u"] id_old
    by (simp add: update_menu_item_present [OF f] item_id_set_fields)
qed (simp_all add: set_fields_def)

theorem C1_values_not_validated_witness:
  "(c_name nameless = [] \<or> c_category nameless = [] \<or> c_price nameless < 0) \<and>
   c_is_special nameless = Some False \<and> c_available nameless = Some True \<and>
   ((u_price blanking = Some (- 5) \<and> (- 5 :: real) < 0) \<or> u_name blanking = Some []
      \<or> u_category blanking = Some []) \<and>
   find_one (\<lambda>i. item_id i = ''id-1'') [chai, lassi] = Some lassi \<and>
   u_price blanking = Some (- 5) \<and> u_name blanking = Some [] \<and> u_category blanking = Some [] \<and>
   create_menu_item ''id-9'' 5000 nameless [chai]
     = (Inr \<lparr>item_id = ''id-9'', category = c_category nameless, name = c_name nameless,
              price = c_price nameless, description = c_description nameless, is_special = False,
              available = True, image_url = c_image_url nameless, created_at = 5000\<rparr>,
        [chai] @ [\<lparr>item_id = ''id-9'', category = c_category nameless, name = c_name nameless,
              price = c_price nameless, description = c_description nameless, is_special = False,
              available = True, image_url = c_image_url nameless, created_at = 5000\<rparr>]) \<and>
   fst (update_menu_item ''id-1'' blanking [chai, lassi]) = Inr (set_fields blanking lassi) \<and>
   price (set_fields blanking lassi) = - 5 \<and>
   name (set_fields blanking lassi) = [] \<and>
   category (set_fields blanking lassi) = []"
proof -
  have h1: "(c_name nameless = [] \<or> c_category nameless = [] \<or> c_price nameless < 0) \<and>
      c_is_special nameless = Some False \<and> c_available nameless = Some True"
    by (simp add: nameless_def)
  have h2: "((u_price blanking = Some (- 5) \<and> (- 5 :: real) < 0) \<or> u_name blanking = Some []
      \<or> u_category blanking = Some []) \<and>
      find_one (\<lambda>i. item_id i = ''id-1'') [chai, lassi] = Some lassi"
    by (simp add: blanking_def chai_def lassi_def)
  have h3: "u_price blanking = Some (- 5)" "u_name blanking = Some []" "u_category blanking = Some []"
    by (simp_all add: blanking_def)
  from C1_values_not_validated [where item = nameless and sp = False and av = True
      and new_id = "''id-9''" and now = 5000 and store = "[chai]" and u = blanking and p = "- 5"
      and iid = "''id-1''" and items = "[chai, lassi]" and old = lassi] h1 h2 h3
  show ?thesis by blast
qed

subsection \<open>C2: a wrong code keeps the challenge\<close>

text \<open>
  C2: when the challenge found for the administrator email is not expired at \<open>now\<close>
  (\<open>now \<le> expires_at\<close>), verify_otp with a code other than the stored one fails with
  400 "Invalid OTP" and returns the collection unchanged; a later verify_otp with the stored
  code, at a time still within the window, succeeds with the session token.
\<close>

theorem C2_wrong_code_keeps_challenge:
  "find_one (\<lambda>d. email d = ADMIN_EMAIL) store = Some d \<Longrightarrow>
   now \<le> expires_at d \<Longrightarrow> req_otp \<noteq> otp d \<Longrightarrow>
     verify_otp ADMIN_EMAIL L JWT_SECRET now now_jwt ADMIN_EMAIL req_otp store
       = (Inl (HTTPException 400 ''Invalid OTP''), store) \<and>
     (now' \<le> expires_at d \<longrightarrow>
        fst (verify_otp ADMIN_EMAIL L JWT_SECRET now' now_jwt' ADMIN_EMAIL (otp d)
              (snd (verify_otp ADMIN_EMAIL L JWT_SECRET now now_jwt ADMIN_EMAIL req_otp store)))
          = Inr (create_jwt_token L JWT_SECRET now_jwt' ADMIN_EMAIL, ADMIN_EMAIL))"
  by (auto simp: verify_otp_found)

theorem C2_wrong_code_keeps_challenge_witness:
  "find_one (\<lambda>d. email d = ''admin@cafe.com'')
      [\<lparr>email = ''admin@cafe.com'', otp = ''123456'', otp_created_at = 0, expires_at = 600\<rparr>]
     = Some \<lparr>email = ''admin@cafe.com'', otp = ''123456'', otp_created_at = 0, expires_at = 600\<rparr> \<and>
   verify_otp ''admin@cafe.com'' demo_jwt ''secret'' 10 10 ''admin@cafe.com'' ''000000''
      [\<lparr>email = ''admin@cafe.com'', otp = ''123456'', otp_created_at = 0, expires_at = 600\<rparr>]
     = (Inl (HTTPException 400 ''Invalid OTP''),
        [\<lparr>email = ''admin@cafe.com'', otp = ''123456'', otp_created_at = 0, expires_at = 600\<rparr>]) \<and>
   fst (verify_otp ''admin@cafe.com'' demo_jwt ''secret'' 20 20 ''admin@cafe.com''
         (otp \<lparr>email = ''admin@cafe.com'', otp = ''123456'', otp_created_at = 0, expires_at = 600\<rparr>)
         (snd (verify_otp ''admin@cafe.com'' demo_jwt ''secret'' 10 10 ''admin@cafe.com'' ''000000''
            [\<lparr>email = ''admin@cafe.com'', otp = ''123456'', otp_created_at = 0, expires_at = 600\<rparr>])))
     = Inr (create_jwt_token demo_jwt ''secret'' 20 ''admin@cafe.com'', ''admin@cafe.com'')"
proof -
  have h1: "find_one (\<lambda>d. email d = ''admin@cafe.com'')
      [\<lparr>email = ''admin@cafe.com'', otp = ''123456'', otp_created_at = 0, expires_at = 600\<rparr>]
     = Some \<lparr>email = ''admin@cafe.com'', otp = ''123456'', otp_created_at = 0, expires_at = 600\<rparr>"
    by simp
  have h2: "(10::int) \<le> expires_at \<lparr>email = ''admin@cafe.com'', otp = ''123456'', otp_created_at = 0, expires_at = 600\<rparr>"
    by simp
  have h3: "''000000'' \<noteq> otp \<lparr>email = ''admin@cafe.com'', otp = ''123456'', otp_created_at = 0, expires_at = 600\<rparr>"
    by simp
  have h4: "(20::int) \<le> expires_at \<lparr>email = ''admin@cafe.com'', otp = ''123456'', otp_created_at = 0, expires_at = 600\<rparr>"
    by simp
  from C2_wrong_code_keeps_challenge [OF h1 h2 h3, where L = demo_jwt and JWT_SECRET = "''secret''"
      and now_jwt = 10 and now' = 20 and now_jwt' = 20] h1 h4
  show ?thesis by blast
qed

subsection \<open>C3: success and expiry consume the challenge\<close>

text \<open>
  C3: for every starting collection, in the collection that send_otp for the administrator
  email leaves, a verification with the issued code not later than expires_at succeeds,
  and one later than expires_at fails with 400 "OTP has expired" whatever the code. After
  either, the collection is the starting one without that email's challenges: no
  challenge for the email remains, and any further verify_otp for it fails with 404.
\<close>

theorem C3_challenge_consumed:
  "(now \<le> now2 + minutes 10 \<longrightarrow>
      verify_otp ADMIN_EMAIL L JWT_SECRET now now_jwt ADMIN_EMAIL (generate_otp r)
          (snd (send_otp ADMIN_EMAIL r now1 now2 sg ADMIN_EMAIL store))
        = (Inr (create_jwt_token L JWT_SECRET now_jwt ADMIN_EMAIL, ADMIN_EMAIL),
           delete_many (\<lambda>d. email d = ADMIN_EMAIL) store) \<and>
      filter (\<lambda>d. email d = ADMIN_EMAIL)
          (snd (verify_otp ADMIN_EMAIL L JWT_SECRET now now_jwt ADMIN_EMAIL (generate_otp r)
             (snd (send_otp ADMIN_EMAIL r now1 now2 sg ADMIN_EMAIL store)))) = [] \<and>
      verify_otp ADMIN_EMAIL L JWT_SECRET now3 now_jwt3 ADMIN_EMAIL code3
          (snd (verify_otp ADMIN_EMAIL L JWT_SECRET now now_jwt ADMIN_EMAIL (generate_otp r)
             (snd (send_otp ADMIN_EMAIL r now1 now2 sg ADMIN_EMAIL store))))
        = (Inl (HTTPException 404 ''OTP not found or expired''),
           delete_many (\<lambda>d. email d = ADMIN_EMAIL) store)) \<and>
   (now2 + minutes 10 < late \<longrightarrow>
      verify_otp ADMIN_EMAIL L JWT_SECRET late now_jwt ADMIN_EMAIL code
          (snd (send_otp ADMIN_EMAIL r now1 now2 sg ADMIN_EMAIL store))
        = (Inl (HTTPException 400 ''OTP has expired''),
           delete_many (\<lambda>d. email d = ADMIN_EMAIL) store) \<and>
      filter (\<lambda>d. email d = ADMIN_EMAIL)
          (snd (verify_otp ADMIN_EMAIL L JWT_SECRET late now_jwt ADMIN_EMAIL code
             (snd (send_otp ADMIN_EMAIL r now1 now2 sg ADMIN_EMAIL store)))) = [] \<and>
      verify_otp ADMIN_EMAIL L JWT_SECRET now3 now_jwt3 ADMIN_EMAIL code3
          (snd (verify_otp ADMIN_EMAIL L JWT_SECRET late now_jwt ADMIN_EMAIL code
             (snd (send_otp ADMIN_EMAIL r now1 now2 sg ADMIN_EMAIL store))))
        = (Inl (HTTPException 404 ''OTP not found or expired''),
           delete_many (\<lambda>d. email d = ADMIN_EMAIL) store))"
proof -
  let ?P = "\<lambda>d. email d = ADMIN_EMAIL"
  let ?doc = "\<lparr>email = ADMIN_EMAIL, otp = generate_otp r, otp_created_at = now1,
                expires_at = now2 + minutes 10\<rparr>"
  let ?s = "snd (send_otp ADMIN_EMAIL r now1 now2 sg ADMIN_EMAIL store)"
  have s: "?s = insert_one ?doc (delete_many ?P store)"
    by (simp add: send_otp_admin)
  have found: "find_one ?P ?s = Some ?doc"
    by (simp add: s find_one_inserted)
  have gone: "delete_one ?P ?s = delete_many ?P store"
    by (simp add: s delete_one_inserted)
  have none: "filter ?P (delete_many ?P store) = []"
    by (rule filter_delete_many)
  have absent: "\<And>t tj c. verify_otp ADMIN_EMAIL L JWT_SECRET t tj ADMIN_EMAIL c (delete_many ?P store)
      = (Inl (HTTPException 404 ''OTP not found or expired''), delete_many ?P store)"
    by (rule verify_otp_absent [OF none])
  have ok: "now \<le> now2 + minutes 10 \<Longrightarrow>
      verify_otp ADMIN_EMAIL L JWT_SECRET now now_jwt ADMIN_EMAIL (generate_otp r) ?s
        = (Inr (create_jwt_token L JWT_SECRET now_jwt ADMIN_EMAIL, ADMIN_EMAIL), delete_many ?P store)"
    by (simp add: verify_otp_found [OF found] gone)
  have expired: "now2 + minutes 10 < late \<Longrightarrow>
      verify_otp ADMIN_EMAIL L JWT_SECRET late now_jwt ADMIN_EMAIL code ?s
        = (Inl (HTTPException 400 ''OTP has expired''), delete_many ?P store)"
    by (simp add: verify_otp_found [OF found] gone)
  show ?thesis
    by (simp add: ok expired absent none)
qed

theorem C3_challenge_consumed_witness:
  "(100::int) \<le> 7 + minutes 10 \<and> (7::int) + minutes 10 < 700000000 \<and>
   verify_otp ''admin@cafe.com'' demo_jwt ''secret'' 100 100 ''admin@cafe.com'' (generate_otp 123456)
       (snd (send_otp ''admin@cafe.com'' 123456 5 7 sendgrid_accepts ''admin@cafe.com'' stale_challenges))
     = (Inr (create_jwt_token demo_jwt ''secret'' 100 ''admin@cafe.com'', ''admin@cafe.com''),
        delete_many (\<lambda>d. email d = ''admin@cafe.com'') stale_challenges) \<and>
   filter (\<lambda>d. email d = ''admin@cafe.com'')
       (snd (verify_otp ''admin@cafe.com'' demo_jwt ''secret'' 100 100 ''admin@cafe.com'' (generate_otp 123456)
          (snd (send_otp ''admin@cafe.com'' 123456 5 7 sendgrid_accepts ''admin@cafe.com'' stale_challenges))))
     = [] \<and>
   verify_otp ''admin@cafe.com'' demo_jwt ''secret'' 200 200 ''admin@cafe.com'' (generate_otp 123456)
       (snd (verify_otp ''admin@cafe.com'' demo_jwt ''secret'' 100 100 ''admin@cafe.com'' (generate_otp 123456)
          (snd (send_otp ''admin@cafe.com'' 123456 5 7 sendgrid_accepts ''admin@cafe.com'' stale_challenges))))
     = (Inl (HTTPException 404 ''OTP not found or expired''),
        delete_many (\<lambda>d. email d = ''admin@cafe.com'') stale_challenges) \<and>
   verify_otp ''admin@cafe.com'' demo_jwt ''secret'' 700000000 100 ''admin@cafe.com'' ''000000''
       (snd (send_otp ''admin@cafe.com'' 123456 5 7 sendgrid_accepts ''admin@cafe.com'' stale_challenges))
     = (Inl (HTTPException 400 ''OTP has expired''),
        delete_many (\<lambda>d. email d = ''admin@cafe.com'') stale_challenges) \<and>
   verify_otp ''admin@cafe.com'' demo_jwt ''secret'' 200 200 ''admin@cafe.com'' (generate_otp 123456)
       (snd (verify_otp ''admin@cafe.com'' demo_jwt ''secret'' 700000000 100 ''admin@cafe.com'' ''000000''
          (snd (send_otp ''admin@cafe.com'' 123456 5 7 sendgrid_accepts ''admin@cafe.com'' stale_challenges))))
     = (Inl (HTTPException 404 ''OTP not found or expired''),
        delete_many (\<lambda>d. email d = ''admin@cafe.com'') stale_challenges)"
proof -
  have h1: "(100::int) \<le> 7 + minutes 10" and h2: "(7::int) + minutes 10 < 700000000"
    by (simp_all add: minutes_def)
  from C3_challenge_consumed [where ADMIN_EMAIL = "''admin@cafe.com''" and L = demo_jwt
      and JWT_SECRET = "''secret''" and r = 123456 and ?now1.0 = 5 and ?now2.0 = 7
      and sg = sendgrid_accepts and now = 100 and now_jwt = 100 and late = 700000000
      and code = "''000000''" and ?now3.0 = 200 and ?now_jwt3.0 = 200 and ?code3.0 = "generate_otp 123456"
      and store = stale_challenges]
    h1 h2
  show ?thesis by blast
qed

subsection \<open>C4: one challenge per email\<close>

text \<open>
  C4 as stated fails in its last part: send_otp reads the clock once for created_at and
  once more for expires_at. With the readings 0 and 1 the stored challenge has
  created_at 0 and expires_at 600000001, which is not created_at plus ten minutes.
\<close>

theorem C4_counterexample:
  "send_otp ''admin@cafe.com'' 123456 0 1 sendgrid_accepts ''admin@cafe.com'' []
     = (Inr (''OTP sent successfully'', ''admin@cafe.com''),
        [\<lparr>email = ''admin@cafe.com'', otp = ''123456'', otp_created_at = 0,
          expires_at = 600000001\<rparr>]) \<and>
   expires_at (hd (snd (send_otp ''admin@cafe.com'' 123456 0 1 sendgrid_accepts ''admin@cafe.com'' [])))
     \<noteq> otp_created_at (hd (snd (send_otp ''admin@cafe.com'' 123456 0 1 sendgrid_accepts ''admin@cafe.com'' [])))
         + minutes 10"
  by (simp add: send_otp_admin sendgrid_accepts_def generate_otp_123456 insert_one_def
        delete_many_def minutes_def)

text \<open>
  C4, amended: for every starting collection, after a send_otp for the administrator email
  whose mail is accepted, exactly one challenge for that email is stored, the new one, and
  the challenges of other emails are as before; a second such request again leaves exactly
  one, the newest. Its created_at is the first clock reading of the request and its
  expires_at the second reading plus ten minutes, so expires_at exceeds created_at by ten
  minutes and the time between the two readings: by ten minutes when they coincide.
\<close>

theorem C4_single_challenge:
  "sg ADMIN_EMAIL (generate_otp r) = Some status \<Longrightarrow>
   sg' ADMIN_EMAIL (generate_otp r') = Some status' \<Longrightarrow>
     fst (send_otp ADMIN_EMAIL r now1 now2 sg ADMIN_EMAIL store)
       = Inr (''OTP sent successfully'', ADMIN_EMAIL) \<and>
     filter (\<lambda>d. email d = ADMIN_EMAIL) (snd (send_otp ADMIN_EMAIL r now1 now2 sg ADMIN_EMAIL store))
       = [\<lparr>email = ADMIN_EMAIL, otp = generate_otp r, otp_created_at = now1,
           expires_at = now2 + minutes 10\<rparr>] \<and>
     filter (\<lambda>d. email d \<noteq> ADMIN_EMAIL) (snd (send_otp ADMIN_EMAIL r now1 now2 sg ADMIN_EMAIL store))
       = filter (\<lambda>d. email d \<noteq> ADMIN_EMAIL) store \<and>
     fst (send_otp ADMIN_EMAIL r' now1' now2' sg' ADMIN_EMAIL
            (snd (send_otp ADMIN_EMAIL r now1 now2 sg ADMIN_EMAIL store)))
       = Inr (''OTP sent successfully'', ADMIN_EMAIL) \<and>
     filter (\<lambda>d. email d = ADMIN_EMAIL)
        (snd (send_otp ADMIN_EMAIL r' now1' now2' sg' ADMIN_EMAIL
               (snd (send_otp ADMIN_EMAIL r now1 now2 sg ADMIN_EMAIL store))))
       = [\<lparr>email = ADMIN_EMAIL, otp = generate_otp r', otp_created_at = now1',
           expires_at = now2' + minutes 10\<rparr>] \<and>
     map (\<lambda>d. expires_at d - otp_created_at d)
        (filter (\<lambda>d. email d = ADMIN_EMAIL)
           (snd (send_otp ADMIN_EMAIL r now1 now2 sg ADMIN_EMAIL store)))
       = [minutes 10 + (now2 - now1)]"
  by (simp add: send_otp_admin filter_inserted filter_not_inserted)

theorem C4_single_challenge_witness:
  "sendgrid_accepts ''admin@cafe.com'' (generate_otp 123456) = Some 202 \<and>
   sendgrid_accepts ''admin@cafe.com'' (generate_otp 654321) = Some 202 \<and>
   filter (\<lambda>d. email d = ''admin@cafe.com'')
     (snd (send_otp ''admin@cafe.com'' 654321 50 50 sendgrid_accepts ''admin@cafe.com''
        (snd (send_otp ''admin@cafe.com'' 123456 7 7 sendgrid_accepts ''admin@cafe.com''
           [\<lparr>email = ''admin@cafe.com'', otp = ''111111'', otp_created_at = 1, expires_at = 2\<rparr>,
            \<lparr>email = ''admin@cafe.com'', otp = ''222222'', otp_created_at = 3, expires_at = 4\<rparr>]))))
     = [\<lparr>email = ''admin@cafe.com'', otp = generate_otp 654321, otp_created_at = 50,
         expires_at = 50 + minutes 10\<rparr>] \<and>
   map (\<lambda>d. expires_at d - otp_created_at d)
     (filter (\<lambda>d. email d = ''admin@cafe.com'')
       (snd (send_otp ''admin@cafe.com'' 123456 7 7 sendgrid_accepts ''admin@cafe.com''
           [\<lparr>email = ''admin@cafe.com'', otp = ''111111'', otp_created_at = 1, expires_at = 2\<rparr>,
            \<lparr>email = ''admin@cafe.com'', otp = ''222222'', otp_created_at = 3, expires_at = 4\<rparr>])))
     = [minutes 10 + (7 - 7)]"
proof -
  have h1: "sendgrid_accepts ''admin@cafe.com'' (generate_otp 123456) = Some 202"
    and h2: "sendgrid_accepts ''admin@cafe.com'' (generate_otp 654321) = Some 202"
    by (simp_all add: sendgrid_accepts_def)
  from C4_single_challenge [where sg = sendgrid_accepts and sg' = sendgrid_accepts
      and ADMIN_EMAIL = "''admin@cafe.com''" and r = 123456 and r' = 654321
      and status = 202 and status' = 202
      and ?now1.0 = 7 and ?now2.0 = 7 and ?now1' = 50 and ?now2' = 50
      and store = "[\<lparr>email = ''admin@cafe.com'', otp = ''111111'', otp_created_at = 1, expires_at = 2\<rparr>,
            \<lparr>email = ''admin@cafe.com'', otp = ''222222'', otp_created_at = 3, expires_at = 4\<rparr>]"]
  show ?thesis using h1 h2 by blast
qed

subsection \<open>C5: other emails are refused\<close>

text \<open>
  C5: for an email other than the configured administrator email, send_otp and verify_otp
  both fail with 403 "Email not authorized" whatever the collection holds, and return the
  collection as it was; the outcome does not depend on the collection, the code, the
  clock or the mail collaborator.
\<close>

theorem C5_non_admin_forbidden:
  "req_email \<noteq> ADMIN_EMAIL \<Longrightarrow>
     send_otp ADMIN_EMAIL r now1 now2 sg req_email store
       = (Inl (HTTPException 403 ''Email not authorized''), store) \<and>
     verify_otp ADMIN_EMAIL L JWT_SECRET now now_jwt req_email req_otp store
       = (Inl (HTTPException 403 ''Email not authorized''), store)"
  by (simp add: send_otp_def verify_otp_def)

theorem C5_non_admin_forbidden_witness:
  "''guest@example.com'' \<noteq> ''admin@cafe.com'' \<and>
   send_otp ''admin@cafe.com'' 123456 0 0 sendgrid_accepts ''guest@example.com''
       [\<lparr>email = ''guest@example.com'', otp = ''111111'', otp_created_at = 1, expires_at = 2\<rparr>]
     = (Inl (HTTPException 403 ''Email not authorized''),
        [\<lparr>email = ''guest@example.com'', otp = ''111111'', otp_created_at = 1, expires_at = 2\<rparr>]) \<and>
   verify_otp ''admin@cafe.com'' demo_jwt ''secret'' 1 1 ''guest@example.com'' ''111111''
       [\<lparr>email = ''guest@example.com'', otp = ''111111'', otp_created_at = 1, expires_at = 2\<rparr>]
     = (Inl (HTTPException 403 ''Email not authorized''),
        [\<lparr>email = ''guest@example.com'', otp = ''111111'', otp_created_at = 1, expires_at = 2\<rparr>])"
proof -
  have h: "''guest@example.com'' \<noteq> ''admin@cafe.com''" by simp
  from C5_non_admin_forbidden [OF h, where r = 123456 and ?now1.0 = 0 and ?now2.0 = 0
      and sg = sendgrid_accepts and L = demo_jwt and JWT_SECRET = "''secret''" and now = 1
      and now_jwt = 1 and req_otp = "''111111''"
      and store = "[\<lparr>email = ''guest@example.com'', otp = ''111111'', otp_created_at = 1, expires_at = 2\<rparr>]"] h
  show ?thesis by blast
qed

subsection \<open>C6: session tokens\<close>

text \<open>
  C6: against the token library as the spec describes it, create_jwt_token yields the
  token of the payload with the email and \<open>exp\<close> seven days after the clock reading,
  signed with the secret. verify_jwt_token with the same secret returns the email at any
  time before that expiry and fails with 401 "Token has expired" at any time after it. It
  fails with 401 "Invalid token" for a token issued under another secret, for any token
  whose signature is not the one of its payload under the secret (a tampered payload
  among them), and for a malformed token.
\<close>

theorem C6_session_token:
  "create_jwt_token (hs256 strict) JWT_SECRET now addr
     = Signed [''email'' \<mapsto> Str addr, ''exp'' \<mapsto> Time (now + days 7)]
         (Signature JWT_SECRET [''email'' \<mapsto> Str addr, ''exp'' \<mapsto> Time (now + days 7)]) \<and>
   (t < now + days 7 \<longrightarrow>
      verify_jwt_token (hs256 strict) JWT_SECRET t
          (create_jwt_token (hs256 strict) JWT_SECRET now addr) = Inr (Str addr)) \<and>
   (now + days 7 < late \<longrightarrow>
      verify_jwt_token (hs256 strict) JWT_SECRET late
          (create_jwt_token (hs256 strict) JWT_SECRET now addr)
        = Inl (HTTPException 401 ''Token has expired'')) \<and>
   (other \<noteq> JWT_SECRET \<longrightarrow>
      verify_jwt_token (hs256 strict) JWT_SECRET t'
          (create_jwt_token (hs256 strict) other now addr)
        = Inl (HTTPException 401 ''Invalid token'')) \<and>
   (sig \<noteq> Signature JWT_SECRET p \<longrightarrow>
      verify_jwt_token (hs256 strict) JWT_SECRET t' (Signed p sig)
        = Inl (HTTPException 401 ''Invalid token'')) \<and>
   verify_jwt_token (hs256 strict) JWT_SECRET t' (Malformed junk)
     = Inl (HTTPException 401 ''Invalid token'')"
  by (simp add: create_jwt_token_def verify_jwt_token_def hs256_encode hs256_decode_signed
        hs256_decode_malformed)

theorem C6_session_token_witness:
  "(1000::int) < 0 + days 7 \<and> (0::int) + days 7 < days 8 \<and> ''other'' \<noteq> ''secret'' \<and>
   Signature ''secret'' admin_claims \<noteq> Signature ''secret'' forged_claims \<and>
   verify_jwt_token (hs256 True) ''secret'' 1000
       (create_jwt_token (hs256 True) ''secret'' 0 ''admin@cafe.com'') = Inr (Str ''admin@cafe.com'') \<and>
   verify_jwt_token (hs256 True) ''secret'' (days 8)
       (create_jwt_token (hs256 True) ''secret'' 0 ''admin@cafe.com'')
     = Inl (HTTPException 401 ''Token has expired'') \<and>
   verify_jwt_token (hs256 True) ''secret'' 1000
       (create_jwt_token (hs256 True) ''other'' 0 ''admin@cafe.com'')
     = Inl (HTTPException 401 ''Invalid token'') \<and>
   verify_jwt_token (hs256 True) ''secret'' 1000 (Signed forged_claims (Signature ''secret'' admin_claims))
     = Inl (HTTPException 401 ''Invalid token'') \<and>
   verify_jwt_token (hs256 True) ''secret'' 1000 (Malformed ''not.a.token'')
     = Inl (HTTPException 401 ''Invalid token'')"
proof -
  have h1: "(1000::int) < 0 + days 7" and h2: "(0::int) + days 7 < days 8"
    by (simp_all add: days_def)
  have h3: "''other'' \<noteq> ''secret''" by simp
  have h4: "Signature ''secret'' admin_claims \<noteq> Signature ''secret'' forged_claims"
    using forged_claims_differ by simp
  from C6_session_token [where strict = True and JWT_SECRET = "''secret''" and now = 0
      and addr = "''admin@cafe.com''" and t = 1000 and late = "days 8" and other = "''other''"
      and t' = 1000 and sig = "Signature ''secret'' admin_claims" and p = forged_claims
      and junk = "''not.a.token''"]
    h1 h2 h3 h4
  show ?thesis by blast
qed

subsection \<open>C7: update changes the given fields only\<close>

text \<open>
  C7: for an id that no stored item has, update_menu_item fails with 404 and returns the
  collection unchanged. For a stored id, the collection is the same list with the first
  item of that id replaced by the updated item, which is also the item returned; each
  field of the payload that is not None is the new value of that field, every other
  field, and always the id and created_at, is as before.
\<close>

theorem C7_update_frame:
  "(find_one (\<lambda>i. item_id i = missing) store = None \<longrightarrow>
      update_menu_item missing u store = (Inl (HTTPException 404 ''Menu item not found''), store)) \<and>
   (find_one (\<lambda>i. item_id i = iid) store = Some old \<longrightarrow>
      store = takeWhile (\<lambda>i. item_id i \<noteq> iid) store @ old # tl (dropWhile (\<lambda>i. item_id i \<noteq> iid) store) \<and>
      update_menu_item iid u store
        = (Inr (set_fields u old),
           takeWhile (\<lambda>i. item_id i \<noteq> iid) store @ set_fields u old
             # tl (dropWhile (\<lambda>i. item_id i \<noteq> iid) store)) \<and>
      item_id (set_fields u old) = item_id old \<and>
      created_at (set_fields u old) = created_at old \<and>
      category (set_fields u old) = (case u_category u of Some v \<Rightarrow> v | None \<Rightarrow> category old) \<and>
      name (set_fields u old) = (case u_name u of Some v \<Rightarrow> v | None \<Rightarrow> name old) \<and>
      price (set_fields u old) = (case u_price u of Some v \<Rightarrow> v | None \<Rightarrow> price old) \<and>
      description (set_fields u old)
        = (case u_description u of Some v \<Rightarrow> Some v | None \<Rightarrow> description old) \<and>
      is_special (set_fields u old)
        = (case u_is_special u of Some v \<Rightarrow> v | None \<Rightarrow> is_special old) \<and>
      available (set_fields u old)
        = (case u_available u of Some v \<Rightarrow> v | None \<Rightarrow> available old) \<and>
      image_url (set_fields u old)
        = (case u_image_url u of Some v \<Rightarrow> Some v | None \<Rightarrow> image_url old))"
proof (intro conjI impI)
  assume "find_one (\<lambda>i. item_id i = missing) store = None"
  then show "update_menu_item missing u store = (Inl (HTTPException 404 ''Menu item not found''), store)"
    by (rule update_menu_item_absent)
next
  assume f: "find_one (\<lambda>i. item_id i = iid) store = Some old"
  from update_one_split [OF f]
  show "store = takeWhile (\<lambda>i. item_id i \<noteq> iid) store @ old # tl (dropWhile (\<lambda>i. item_id i \<noteq> iid) store)"
    by blast
  from update_one_split [OF f, of "set_fields u"] update_menu_item_present [OF f, of u]
  show "update_menu_item iid u store
        = (Inr (set_fields u old),
           takeWhile (\<lambda>i. item_id i \<noteq> iid) store @ set_fields u old
             # tl (dropWhile (\<lambda>i. item_id i \<noteq> iid) store))"
    by simp
qed (simp_all add: set_fields_def)

theorem C7_update_frame_witness:
  "find_one (\<lambda>i. item_id i = ''id-7'') [chai, lassi] = None \<and>
   find_one (\<lambda>i. item_id i = ''id-1'') [chai, lassi] = Some lassi \<and>
   update_menu_item ''id-7'' reprice [chai, lassi]
     = (Inl (HTTPException 404 ''Menu item not found''), [chai, lassi]) \<and>
   update_menu_item ''id-1'' reprice [chai, lassi]
     = (Inr (lassi\<lparr>price := 45\<rparr>), [chai, lassi\<lparr>price := 45\<rparr>])"
proof -
  have h1: "find_one (\<lambda>i. item_id i = ''id-7'') [chai, lassi] = None"
    by (simp add: chai_def lassi_def)
  have h2: "find_one (\<lambda>i. item_id i = ''id-1'') [chai, lassi] = Some lassi"
    by (simp add: chai_def lassi_def)
  from C7_update_frame [where missing = "''id-7''" and iid = "''id-1''" and u = reprice
      and store = "[chai, lassi]" and old = lassi] h1 h2
  have "update_menu_item ''id-7'' reprice [chai, lassi]
          = (Inl (HTTPException 404 ''Menu item not found''), [chai, lassi])"
    and "update_menu_item ''id-1'' reprice [chai, lassi]
          = (Inr (set_fields reprice lassi),
             takeWhile (\<lambda>i. item_id i \<noteq> ''id-1'') [chai, lassi] @ set_fields reprice lassi
               # tl (dropWhile (\<lambda>i. item_id i \<noteq> ''id-1'') [chai, lassi]))"
    by blast+
  moreover have "set_fields reprice lassi = lassi\<lparr>price := 45\<rparr>"
    by (simp add: set_fields_def reprice_def)
  moreover have "takeWhile (\<lambda>i. item_id i \<noteq> ''id-1'') [chai, lassi] = [chai]"
    and "tl (dropWhile (\<lambda>i. item_id i \<noteq> ''id-1'') [chai, lassi]) = []"
    by (simp_all add: chai_def lassi_def)
  ultimately show ?thesis using h1 h2 by simp
qed

subsection \<open>C8: the toggles\<close>

text \<open>
  C8: for an id that no stored item has, toggle_special and toggle_available fail with 404
  and change nothing. For a stored id, toggle_special returns the negated is_special and
  replaces the item by itself with only is_special negated, toggle_available does the
  same for available; every other item stays, and applying a toggle twice gives back
  the original collection.
\<close>

theorem C8_toggles:
  "(find_one (\<lambda>i. item_id i = missing) store = None \<longrightarrow>
      toggle_special missing store = (Inl (HTTPException 404 ''Menu item not found''), store) \<and>
      toggle_available missing store = (Inl (HTTPException 404 ''Menu item not found''), store)) \<and>
   (find_one (\<lambda>i. item_id i = iid) store = Some old \<longrightarrow>
      store = takeWhile (\<lambda>i. item_id i \<noteq> iid) store @ old # tl (dropWhile (\<lambda>i. item_id i \<noteq> iid) store) \<and>
      toggle_special iid store
        = (Inr (''Special status updated'', \<not> is_special old),
           takeWhile (\<lambda>i. item_id i \<noteq> iid) store @ old\<lparr>is_special := \<not> is_special old\<rparr>
             # tl (dropWhile (\<lambda>i. item_id i \<noteq> iid) store)) \<and>
      toggle_available iid store
        = (Inr (''Availability updated'', \<not> available old),
           takeWhile (\<lambda>i. item_id i \<noteq> iid) store @ old\<lparr>available := \<not> available old\<rparr>
             # tl (dropWhile (\<lambda>i. item_id i \<noteq> iid) store)) \<and>
      snd (toggle_special iid (snd (toggle_special iid store))) = store \<and>
      snd (toggle_available iid (snd (toggle_available iid store))) = store)"
proof (intro conjI impI)
  assume n: "find_one (\<lambda>i. item_id i = missing) store = None"
  from n show "toggle_special missing store = (Inl (HTTPException 404 ''Menu item not found''), store)"
    by (simp add: toggle_special_def)
  from n show "toggle_available missing store = (Inl (HTTPException 404 ''Menu item not found''), store)"
    by (simp add: toggle_available_def)
next
  assume f: "find_one (\<lambda>i. item_id i = iid) store = Some old"
  from update_one_split [OF f]
  show "store = takeWhile (\<lambda>i. item_id i \<noteq> iid) store @ old # tl (dropWhile (\<lambda>i. item_id i \<noteq> iid) store)"
    by blast
  from update_one_split [OF f, of "\<lambda>i. i\<lparr>is_special := \<not> is_special old\<rparr>"]
  show "toggle_special iid store
        = (Inr (''Special status updated'', \<not> is_special old),
           takeWhile (\<lambda>i. item_id i \<noteq> iid) store @ old\<lparr>is_special := \<not> is_special old\<rparr>
             # tl (dropWhile (\<lambda>i. item_id i \<noteq> iid) store))"
    by (simp add: toggle_special_present [OF f])
  from update_one_split [OF f, of "\<lambda>i. i\<lparr>available := \<not> available old\<rparr>"]
  show "toggle_available iid store
        = (Inr (''Availability updated'', \<not> available old),
           takeWhile (\<lambda>i. item_id i \<noteq> iid) store @ old\<lparr>available := \<not> available old\<rparr>
             # tl (dropWhile (\<lambda>i. item_id i \<noteq> iid) store))"
    by (simp add: toggle_available_present [OF f])
  from f show "snd (toggle_special iid (snd (toggle_special iid store))) = store"
    by (rule toggle_special_twice)
  from f show "snd (toggle_available iid (snd (toggle_available iid store))) = store"
    by (rule toggle_available_twice)
qed

theorem C8_toggles_witness:
  "find_one (\<lambda>i. item_id i = ''id-7'') [chai, lassi] = None \<and>
   find_one (\<lambda>i. item_id i = ''id-1'') [chai, lassi] = Some lassi \<and>
   toggle_special ''id-7'' [chai, lassi]
     = (Inl (HTTPException 404 ''Menu item not found''), [chai, lassi]) \<and>
   toggle_available ''id-7'' [chai, lassi]
     = (Inl (HTTPException 404 ''Menu item not found''), [chai, lassi]) \<and>
   snd (toggle_special ''id-1'' (snd (toggle_special ''id-1'' [chai, lassi]))) = [chai, lassi] \<and>
   snd (toggle_available ''id-1'' (snd (toggle_available ''id-1'' [chai, lassi]))) = [chai, lassi]"
proof -
  have h1: "find_one (\<lambda>i. item_id i = ''id-7'') [chai, lassi] = None"
    by (simp add: chai_def lassi_def)
  have h2: "find_one (\<lambda>i. item_id i = ''id-1'') [chai, lassi] = Some lassi"
    by (simp add: chai_def lassi_def)
  from C8_toggles [where missing = "''id-7''" and iid = "''id-1''"
      and store = "[chai, lassi]" and old = lassi] h1 h2
  show ?thesis by blast
qed

subsection \<open>C9: a failed dispatch keeps the challenge\<close>

text \<open>
  C9: when sending the mail raises, send_otp for the administrator email fails with
  500 "Failed to send OTP email", and the new challenge is the one stored for that email;
  a verify_otp with its code, not later than its expires_at, succeeds.
\<close>

theorem C9_dispatch_failure_keeps_challenge:
  "sg ADMIN_EMAIL (generate_otp r) = None \<Longrightarrow>
     fst (send_otp ADMIN_EMAIL r now1 now2 sg ADMIN_EMAIL store)
       = Inl (HTTPException 500 ''Failed to send OTP email'') \<and>
     find_one (\<lambda>d. email d = ADMIN_EMAIL) (snd (send_otp ADMIN_EMAIL r now1 now2 sg ADMIN_EMAIL store))
       = Some \<lparr>email = ADMIN_EMAIL, otp = generate_otp r, otp_created_at = now1,
               expires_at = now2 + minutes 10\<rparr> \<and>
     filter (\<lambda>d. email d = ADMIN_EMAIL) (snd (send_otp ADMIN_EMAIL r now1 now2 sg ADMIN_EMAIL store))
       = [\<lparr>email = ADMIN_EMAIL, otp = generate_otp r, otp_created_at = now1,
           expires_at = now2 + minutes 10\<rparr>] \<and>
     (now \<le> now2 + minutes 10 \<longrightarrow>
        fst (verify_otp ADMIN_EMAIL L JWT_SECRET now now_jwt ADMIN_EMAIL (generate_otp r)
               (snd (send_otp ADMIN_EMAIL r now1 now2 sg ADMIN_EMAIL store)))
          = Inr (create_jwt_token L JWT_SECRET now_jwt ADMIN_EMAIL, ADMIN_EMAIL))"
  by (simp add: send_otp_admin find_one_inserted filter_inserted verify_otp_found)

theorem C9_dispatch_failure_witness:
  "sendgrid_raises ''admin@cafe.com'' (generate_otp 123456) = None \<and>
   (100::int) \<le> 5 + minutes 10 \<and>
   fst (send_otp ''admin@cafe.com'' 123456 5 5 sendgrid_raises ''admin@cafe.com'' [])
     = Inl (HTTPException 500 ''Failed to send OTP email'') \<and>
   fst (verify_otp ''admin@cafe.com'' demo_jwt ''secret'' 100 100 ''admin@cafe.com'' (generate_otp 123456)
          (snd (send_otp ''admin@cafe.com'' 123456 5 5 sendgrid_raises ''admin@cafe.com'' [])))
     = Inr (create_jwt_token demo_jwt ''secret'' 100 ''admin@cafe.com'', ''admin@cafe.com'')"
proof -
  have h: "sendgrid_raises ''admin@cafe.com'' (generate_otp 123456) = None"
    by (simp add: sendgrid_raises_def)
  have t: "(100::int) \<le> 5 + minutes 10"
    by (simp add: minutes_def)
  from C9_dispatch_failure_keeps_challenge [where sg = sendgrid_raises
      and ADMIN_EMAIL = "''admin@cafe.com''" and r = 123456 and ?now1.0 = 5 and ?now2.0 = 5
      and now = 100 and now_jwt = 100 and L = demo_jwt and JWT_SECRET = "''secret''"
      and store = "[]"] t h
  show ?thesis by blast
qed

subsection \<open>C10: listings stop at 1000 items\<close>

text \<open>
  C10: get_menu, get_specials and get_all_menu_items return the first 1000 items that match
  their filter, so never more than 1000; for a collection of more than 1000 items
  get_all_menu_items returns exactly 1000 and so not the whole collection.
\<close>

theorem C10_listing_cap:
  "length (get_menu store) \<le> 1000 \<and>
   length (get_specials store) \<le> 1000 \<and>
   length (get_all_menu_items store) \<le> 1000 \<and>
   get_menu store = take 1000 (filter (\<lambda>i. available i) store) \<and>
   get_specials store = take 1000 (filter (\<lambda>i. is_special i \<and> available i) store) \<and>
   get_all_menu_items store = take 1000 store \<and>
   (1000 < length store \<longrightarrow>
      length (get_all_menu_items store) = 1000 \<and> get_all_menu_items store \<noteq> store)"
proof -
  have "1000 < length store \<Longrightarrow> take 1000 store \<noteq> store"
  proof
    assume a: "1000 < length store" and b: "take 1000 store = store"
    have "length (take 1000 store) = 1000" using a by simp
    with a b show False by simp
  qed
  then show ?thesis
    by (simp add: get_menu_def get_specials_def get_all_menu_items_def to_list_def find_many_def)
qed

theorem C10_listing_cap_witness:
  "1000 < length (replicate 1001 lassi) \<and>
   length (get_all_menu_items (replicate 1001 lassi)) = 1000 \<and>
   get_all_menu_items (replicate 1001 lassi) \<noteq> replicate 1001 lassi"
proof -
  have h: "1000 < length (replicate 1001 lassi)" by simp
  from C10_listing_cap [of "replicate 1001 lassi"] h
  show ?thesis by blast
qed

end
